theory Spec2Isabelle
  imports Main
begin

section \<open>JavaScript values as the WebSocket handler sees them\<close>

text \<open>
  The handler of \<^verbatim>\<open>ws.on("message", ...)\<close> in \<^verbatim>\<open>registerRoutes\<close> reads
  \<^verbatim>\<open>JSON.parse(data.toString())\<close>, a value of type \<^verbatim>\<open>any\<close>, and never validates it
  against the schemas of \<^verbatim>\<open>@shared/schema\<close>. The fields of a message are therefore
  arbitrary JavaScript values: what \<^verbatim>\<open>JSON.parse\<close> can produce, and \<^verbatim>\<open>undefined\<close> for
  a property that is absent.

  \<^item> A number is carried by its \<^verbatim>\<open>Number::toString\<close> rendering. The handler only tests a
    number for truthiness, converts it to a string and echoes it; two numbers with the same
    rendering differ in none of these (\<^verbatim>\<open>0\<close> and \<^verbatim>\<open>-0\<close> both render as \<^verbatim>\<open>0\<close>).
  \<^item> An object is the list of its own properties.
  \<^item> A string is a \<^typ>\<open>string\<close>. The only operations on strings are concatenation,
    \<^verbatim>\<open>toLowerCase\<close> followed by \<^verbatim>\<open>startsWith\<close> on an ASCII prefix, \<^verbatim>\<open>slice\<close> for a
    log line, and use as a key.

  The function \<^verbatim>\<open>log\<close> is imported from \<^verbatim>\<open>./index\<close> and only writes a line; what the
  model keeps of a call of \<^verbatim>\<open>log\<close> is the evaluation of its argument, which can throw.
\<close>

datatype jsval =
    JUndefined
  | JNull
  | JBool bool
  | JNum string
  | JStr string
  | JArr "jsval list"
  | JObj "(string \<times> jsval) list"

datatype js_error = SyntaxError | TypeError

text \<open>\<^verbatim>\<open>if (v)\<close>, \<^verbatim>\<open>v || ""\<close>: the falsy values are \<^verbatim>\<open>undefined\<close>, \<^verbatim>\<open>null\<close>,
  \<^verbatim>\<open>false\<close>, \<^verbatim>\<open>0\<close>, \<^verbatim>\<open>-0\<close>, \<^verbatim>\<open>NaN\<close> and the empty string.\<close>

fun truthy :: "jsval \<Rightarrow> bool" where
  "truthy JUndefined = False"
| "truthy JNull = False"
| "truthy (JBool b) = b"
| "truthy (JNum t) = (t \<noteq> ''0'' \<and> t \<noteq> ''NaN'')"
| "truthy (JStr s) = (s \<noteq> [])"
| "truthy (JArr xs) = True"
| "truthy (JObj ps) = True"

text \<open>\<^verbatim>\<open>message.k\<close> for the keys the handler reads (\<^verbatim>\<open>type\<close>, \<^verbatim>\<open>promptId\<close>,
  \<^verbatim>\<open>selectedOptionId\<close>, \<^verbatim>\<open>ok\<close>, \<^verbatim>\<open>message\<close>, \<^verbatim>\<open>ts\<close>). None of them is a property of
  a builtin prototype, so the read gives the own property of an object and \<^verbatim>\<open>undefined\<close>
  on every other value; on \<^verbatim>\<open>null\<close> and \<^verbatim>\<open>undefined\<close> it throws a \<^verbatim>\<open>TypeError\<close>.\<close>

fun get_prop :: "jsval \<Rightarrow> string \<Rightarrow> js_error + jsval" where
  "get_prop JUndefined k = Inl TypeError"
| "get_prop JNull k = Inl TypeError"
| "get_prop (JObj ps) k = Inr (case map_of ps k of None \<Rightarrow> JUndefined | Some v \<Rightarrow> v)"
| "get_prop v k = Inr JUndefined"

text \<open>The string conversion of a template literal \<^verbatim>\<open>`${v}`\<close>. An array is joined with
  commas, \<^verbatim>\<open>null\<close> and \<^verbatim>\<open>undefined\<close> elements giving the empty string. An object prints
  as \<^verbatim>\<open>[object Object]\<close> through \<^verbatim>\<open>Object.prototype.toString\<close>, unless it has an own
  property \<^verbatim>\<open>toString\<close>: a value from JSON is never callable, and
  \<^verbatim>\<open>Object.prototype.valueOf\<close> returns the object, so the conversion throws.\<close>

fun toString :: "jsval \<Rightarrow> js_error + string"
  and join :: "jsval list \<Rightarrow> js_error + string"
where
  "toString JUndefined = Inr ''undefined''"
| "toString JNull = Inr ''null''"
| "toString (JBool b) = Inr (if b then ''true'' else ''false'')"
| "toString (JNum t) = Inr t"
| "toString (JStr s) = Inr s"
| "toString (JArr xs) = join xs"
| "toString (JObj ps) =
     (if ''toString'' \<in> fst ` set ps then Inl TypeError else Inr ''[object Object]'')"
| "join [] = Inr ''''"
| "join (x # xs) =
     (case (if x = JUndefined \<or> x = JNull then Inr '''' else toString x) of
        Inl e \<Rightarrow> Inl e
      | Inr s \<Rightarrow>
          (if xs = [] then Inr s
           else (case join xs of Inl e \<Rightarrow> Inl e | Inr t \<Rightarrow> Inr (s @ '','' @ t))))"

text \<open>\<^verbatim>\<open>String.prototype.toLowerCase\<close> on the ASCII letters. A character outside ASCII is
  left as it is; no such character lowercases to a letter of \<^verbatim>\<open>style\<close>, \<^verbatim>\<open>palette\<close> or
  \<^verbatim>\<open>finish\<close> in a way that completes one of these prefixes, so the three
  \<^verbatim>\<open>startsWith\<close> tests of the handler give the same answers.\<close>

definition toLowerChar :: "char \<Rightarrow> char" where
  "toLowerChar c =
     (case map_of (zip ''ABCDEFGHIJKLMNOPQRSTUVWXYZ'' ''abcdefghijklmnopqrstuvwxyz'') c of
        None \<Rightarrow> c
      | Some l \<Rightarrow> l)"

definition toLowerCase :: "string \<Rightarrow> string" where
  "toLowerCase s = map toLowerChar s"

definition startsWith :: "string \<Rightarrow> string \<Rightarrow> bool" where
  "startsWith s p = (take (length p) s = p)"

text \<open>\<^verbatim>\<open>v.toLowerCase()\<close> on a value of type \<^verbatim>\<open>any\<close>: only a string has the method.\<close>

fun call_toLowerCase :: "jsval \<Rightarrow> js_error + string" where
  "call_toLowerCase (JStr s) = Inr (toLowerCase s)"
| "call_toLowerCase v = Inl TypeError"

text \<open>\<^verbatim>\<open>v.slice(0, n)\<close>: strings and arrays have the method; on every other value the
  property is \<^verbatim>\<open>undefined\<close> or, on an object with an own property \<^verbatim>\<open>slice\<close>, not
  callable.\<close>

fun call_slice :: "jsval \<Rightarrow> nat \<Rightarrow> js_error + jsval" where
  "call_slice (JStr s) n = Inr (JStr (take n s))"
| "call_slice (JArr xs) n = Inr (JArr (take n xs))"
| "call_slice v n = Inl TypeError"

section \<open>The session data model (\<^verbatim>\<open>@shared/schema\<close>)\<close>

datatype role = Client | Agent

record message =
  m_role :: role
  m_text :: string
  m_ts :: int

datatype todo_status = Todo | Done

record todo =
  t_id :: string
  t_text :: string
  t_status :: todo_status

text \<open>\<^verbatim>\<open>PaintingBrief\<close>. The schema types \<^verbatim>\<open>style\<close>, \<^verbatim>\<open>palette\<close> and \<^verbatim>\<open>finish\<close> as
  \<^verbatim>\<open>string | null\<close>, but the handler stores \<^verbatim>\<open>message.selectedOptionId\<close> there, which is
  \<^verbatim>\<open>any\<close>; the same holds for the values of \<^verbatim>\<open>constraints\<close>.\<close>

record brief =
  style :: jsval
  palette :: jsval
  finish :: jsval
  vibe :: "string list"
  rooms :: "string list"
  constraints :: "string \<rightharpoonup> jsval"
  timeline :: "string option"
  budget :: "string option"
  openQuestions :: "string list"

text \<open>\<^verbatim>\<open>Partial<PaintingBrief>\<close>: every key is absent (\<open>None\<close>) or present with a value.\<close>

record brief_updates =
  u_style :: "jsval option"
  u_palette :: "jsval option"
  u_finish :: "jsval option"
  u_vibe :: "string list option"
  u_rooms :: "string list option"
  u_constraints :: "(string \<rightharpoonup> jsval) option"
  u_timeline :: "string option option"
  u_budget :: "string option option"
  u_openQuestions :: "string list option"

definition no_updates :: brief_updates where
  "no_updates = \<lparr> u_style = None, u_palette = None, u_finish = None, u_vibe = None,
     u_rooms = None, u_constraints = None, u_timeline = None, u_budget = None,
     u_openQuestions = None \<rparr>"

record approval =
  a_ts :: int
  a_text :: string

record session =
  s_id :: string
  createdAt :: int
  messages :: "message list"
  brief :: brief
  todos :: "todo list"
  approvals :: "approval list"

section \<open>\<^verbatim>\<open>DbStorage\<close>: the in-memory session map\<close>

record storage =
  sessions :: "string \<rightharpoonup> session"

definition new_storage :: storage where
  "new_storage = \<lparr> sessions = Map.empty \<rparr>"

definition getSession :: "string \<Rightarrow> storage \<Rightarrow> session option" where
  "getSession sid st = sessions st sid"

text \<open>\<^verbatim>\<open>createSession\<close>; \<open>now\<close> is the value of \<^verbatim>\<open>Date.now()\<close>.\<close>

definition createSession :: "string \<Rightarrow> int \<Rightarrow> storage \<Rightarrow> session \<times> storage" where
  "createSession sid now st =
     (let session = \<lparr> s_id = sid, createdAt = now, messages = [],
            brief = \<lparr> style = JNull, palette = JNull, finish = JNull, vibe = [], rooms = [],
                      constraints = Map.empty, timeline = None, budget = None,
                      openQuestions = [] \<rparr>,
            todos = [], approvals = [] \<rparr>
      in (session, st\<lparr>sessions := (sessions st)(sid \<mapsto> session)\<rparr>))"

text \<open>The object spread \<^verbatim>\<open>{ ...session.brief, ...updates }\<close>: every key of \<^verbatim>\<open>updates\<close>
  overrides the key of the brief, the other keys are copied.\<close>

definition spread_brief :: "brief \<Rightarrow> brief_updates \<Rightarrow> brief" where
  "spread_brief b u =
     \<lparr> style = (case u_style u of None \<Rightarrow> style b | Some v \<Rightarrow> v),
       palette = (case u_palette u of None \<Rightarrow> palette b | Some v \<Rightarrow> v),
       finish = (case u_finish u of None \<Rightarrow> finish b | Some v \<Rightarrow> v),
       vibe = (case u_vibe u of None \<Rightarrow> vibe b | Some v \<Rightarrow> v),
       rooms = (case u_rooms u of None \<Rightarrow> rooms b | Some v \<Rightarrow> v),
       constraints = (case u_constraints u of None \<Rightarrow> constraints b | Some v \<Rightarrow> v),
       timeline = (case u_timeline u of None \<Rightarrow> timeline b | Some v \<Rightarrow> v),
       budget = (case u_budget u of None \<Rightarrow> budget b | Some v \<Rightarrow> v),
       openQuestions = (case u_openQuestions u of None \<Rightarrow> openQuestions b | Some v \<Rightarrow> v) \<rparr>"

definition updateBrief :: "string \<Rightarrow> brief_updates \<Rightarrow> storage \<Rightarrow> session option \<times> storage" where
  "updateBrief sid updates st =
     (case sessions st sid of
        None \<Rightarrow> (None, st)
      | Some session \<Rightarrow>
          (let session' = session\<lparr>brief := spread_brief (brief session) updates\<rparr>
           in (Some session', st\<lparr>sessions := (sessions st)(sid \<mapsto> session')\<rparr>)))"

definition addApproval :: "string \<Rightarrow> approval \<Rightarrow> storage \<Rightarrow> session option \<times> storage" where
  "addApproval sid approval st =
     (case sessions st sid of
        None \<Rightarrow> (None, st)
      | Some session \<Rightarrow>
          (let session' = session\<lparr>approvals := approvals session @ [approval]\<rparr>
           in (Some session', st\<lparr>sessions := (sessions st)(sid \<mapsto> session')\<rparr>)))"

section \<open>The connection and its message handler (\<^verbatim>\<open>registerRoutes\<close>)\<close>

text \<open>What the server passes to \<^verbatim>\<open>JSON.stringify\<close> and \<^verbatim>\<open>ws.send\<close>. The text of an
  \<^verbatim>\<open>ERROR\<close> is \<^verbatim>\<open>String(error)\<close>, the engine's rendering of the error that was
  caught; the model keeps the error itself.\<close>

datatype outbound =
    CALL_FINISHED string
  | TODO_PREVIEW "string list"
  | PONG jsval
  | ERROR js_error

text \<open>The calls the server makes on the socket \<^verbatim>\<open>ws\<close>, in the order it makes them.\<close>

datatype ws_call = Send outbound | Close nat string

text \<open>The payload of a frame, given by what \<^verbatim>\<open>JSON.parse\<close> makes of it: a
  \<^verbatim>\<open>SyntaxError\<close>, or a value.\<close>

datatype frame = NotJson | Json jsval

fun JSON_parse :: "frame \<Rightarrow> js_error + jsval" where
  "JSON_parse NotJson = Inl SyntaxError"
| "JSON_parse (Json v) = Inr v"

text \<open>\<^verbatim>\<open>wss.on("connection", ...)\<close>: \<open>param\<close> is
  \<^verbatim>\<open>url.searchParams.get("sessionId")\<close>, \<^verbatim>\<open>null\<close> when the parameter is missing. The
  result is the storage, the bound session id if the connection was accepted, and the calls
  made on the socket.\<close>

definition on_connection ::
  "string option \<Rightarrow> int \<Rightarrow> storage \<Rightarrow> storage \<times> string option \<times> ws_call list" where
  "on_connection param now st =
     (case param of
        None \<Rightarrow> (st, None, [Close 1008 ''Missing sessionId parameter''])
      | Some sessionId \<Rightarrow>
          if sessionId = [] then (st, None, [Close 1008 ''Missing sessionId parameter''])
          else (case getSession sessionId st of
                  Some session \<Rightarrow> (st, Some sessionId, [])
                | None \<Rightarrow> (snd (createSession sessionId now st), Some sessionId, [])))"

text \<open>The body of the \<^verbatim>\<open>try\<close> block either runs to its end or throws; what it wrote to
  the storage and sent on the socket before a throw stays.\<close>

datatype outcome = Returned | Thrown js_error

type_synonym effect = "outcome \<times> storage \<times> ws_call list"

text \<open>The branch \<^verbatim>\<open>message.type === "UI_RESPONSE"\<close>. The template literal of the approval
  text converts both fields to strings before anything is stored. In the last branch
  \<^verbatim>\<open>message.promptId\<close> is a string, since \<^verbatim>\<open>toLowerCase\<close> has returned, and the computed
  key \<^verbatim>\<open>[message.promptId]\<close> is that string \<open>p\<close> itself.\<close>

definition on_UI_RESPONSE :: "string \<Rightarrow> int \<Rightarrow> jsval \<Rightarrow> jsval \<Rightarrow> storage \<Rightarrow> effect" where
  "on_UI_RESPONSE sessionId now promptId selectedOptionId st =
     (case toString promptId of
        Inl e \<Rightarrow> (Thrown e, st, [])
      | Inr p \<Rightarrow>
     (case toString selectedOptionId of
        Inl e \<Rightarrow> (Thrown e, st, [])
      | Inr sel \<Rightarrow>
     (let approval = \<lparr> a_ts = now, a_text = ''UI_RESPONSE '' @ p @ '' -> '' @ sel \<rparr>;
          st1 = snd (addApproval sessionId approval st)
      in case call_toLowerCase promptId of
           Inl e \<Rightarrow> (Thrown e, st1, [])
         | Inr lowered \<Rightarrow>
             if startsWith lowered ''style'' then
               (Returned,
                snd (updateBrief sessionId (no_updates\<lparr>u_style := Some selectedOptionId\<rparr>) st1),
                [])
             else if startsWith lowered ''palette'' then
               (Returned,
                snd (updateBrief sessionId (no_updates\<lparr>u_palette := Some selectedOptionId\<rparr>) st1),
                [])
             else if startsWith lowered ''finish'' then
               (Returned,
                snd (updateBrief sessionId (no_updates\<lparr>u_finish := Some selectedOptionId\<rparr>) st1),
                [])
             else
               (case getSession sessionId st1 of
                  None \<Rightarrow> (Returned, st1, [])
                | Some currentSession \<Rightarrow>
                    (let merged = (constraints (brief currentSession))(p \<mapsto> selectedOptionId)
                     in (Returned,
                         snd (updateBrief sessionId (no_updates\<lparr>u_constraints := Some merged\<rparr>) st1),
                         []))))))"

text \<open>The branch \<^verbatim>\<open>message.type === "TODO_CONFIRM"\<close>.\<close>

definition fallback_items :: "string list" where
  "fallback_items =
     [''Review and finalize painting style preferences'',
      ''Confirm color palette selections'',
      ''Schedule initial consultation call'',
      ''Review project timeline and milestones'',
      ''Prepare room measurements and photos'']"

definition on_TODO_CONFIRM :: "string \<Rightarrow> int \<Rightarrow> jsval \<Rightarrow> storage \<Rightarrow> effect" where
  "on_TODO_CONFIRM sessionId now ok st =
     (case toString ok of
        Inl e \<Rightarrow> (Thrown e, st, [])
      | Inr oks \<Rightarrow>
     (let approval = \<lparr> a_ts = now, a_text = ''TODO_CONFIRM ok='' @ oks \<rparr>;
          st1 = snd (addApproval sessionId approval st)
      in if truthy ok then
           (Returned, st1, [Send (CALL_FINISHED sessionId), Close 1000 ''Call finished''])
         else
           (Returned, st1, [Send (TODO_PREVIEW fallback_items)])))"

text \<open>The branch \<^verbatim>\<open>message.type === "AGENT_NOTE"\<close>. After the approval is stored, the
  log line evaluates \<^verbatim>\<open>noteMessage.slice(0, 100)\<close> inside a template literal.\<close>

definition on_AGENT_NOTE :: "string \<Rightarrow> int \<Rightarrow> jsval \<Rightarrow> storage \<Rightarrow> effect" where
  "on_AGENT_NOTE sessionId now msg st =
     (let noteMessage = (if truthy msg then msg else JStr [])
      in if truthy noteMessage then
           (case toString noteMessage of
              Inl e \<Rightarrow> (Thrown e, st, [])
            | Inr note \<Rightarrow>
           (let approval = \<lparr> a_ts = now, a_text = ''AGENT_NOTE: '' @ note \<rparr>;
                st1 = snd (addApproval sessionId approval st)
            in case call_slice noteMessage 100 of
                 Inl e \<Rightarrow> (Thrown e, st1, [])
               | Inr sliced \<Rightarrow>
                   (case toString sliced of
                      Inl e \<Rightarrow> (Thrown e, st1, [])
                    | Inr logged \<Rightarrow> (Returned, st1, []))))
         else (Returned, st, []))"

text \<open>The branch \<^verbatim>\<open>message.type === "PING"\<close>. The log line converts \<^verbatim>\<open>message.ts\<close> to a
  string after the \<^verbatim>\<open>PONG\<close> has been sent.\<close>

definition on_PING :: "jsval \<Rightarrow> storage \<Rightarrow> effect" where
  "on_PING ts st =
     (case toString ts of
        Inl e \<Rightarrow> (Thrown e, st, [Send (PONG ts)])
      | Inr logged \<Rightarrow> (Returned, st, [Send (PONG ts)]))"

text \<open>The \<^verbatim>\<open>try\<close> block: the \<^verbatim>\<open>if\<close>/\<^verbatim>\<open>else if\<close> chain on \<^verbatim>\<open>message.type\<close>, which has
  no final \<^verbatim>\<open>else\<close>. Reading \<^verbatim>\<open>message.type\<close> throws on \<^verbatim>\<open>null\<close>; once it has not,
  the later reads of the same message cannot.\<close>

definition field :: "jsval \<Rightarrow> string \<Rightarrow> jsval" where
  "field v k = (case get_prop v k of Inl e \<Rightarrow> JUndefined | Inr x \<Rightarrow> x)"

definition try_block :: "string \<Rightarrow> int \<Rightarrow> frame \<Rightarrow> storage \<Rightarrow> effect" where
  "try_block sessionId now data st =
     (case JSON_parse data of
        Inl e \<Rightarrow> (Thrown e, st, [])
      | Inr message \<Rightarrow>
     (case get_prop message ''type'' of
        Inl e \<Rightarrow> (Thrown e, st, [])
      | Inr ty \<Rightarrow>
          if ty = JStr ''UI_RESPONSE'' then
            on_UI_RESPONSE sessionId now (field message ''promptId'')
              (field message ''selectedOptionId'') st
          else if ty = JStr ''TODO_CONFIRM'' then
            on_TODO_CONFIRM sessionId now (field message ''ok'') st
          else if ty = JStr ''AGENT_NOTE'' then
            on_AGENT_NOTE sessionId now (field message ''message'') st
          else if ty = JStr ''PING'' then
            on_PING (field message ''ts'') st
          else (Returned, st, [])))"

text \<open>\<^verbatim>\<open>ws.on("message", ...)\<close>: the \<^verbatim>\<open>try\<close> block and its \<^verbatim>\<open>catch\<close>, which sends one
  \<^verbatim>\<open>ERROR\<close>. The result is the storage and the calls made on the socket for this frame.
  One run of the handler is taken as a whole: the storage methods it awaits do their work
  before they return.\<close>

definition on_message :: "string \<Rightarrow> int \<Rightarrow> frame \<Rightarrow> storage \<Rightarrow> storage \<times> ws_call list" where
  "on_message sessionId now data st =
     (case try_block sessionId now data st of
        (Returned, st', calls) \<Rightarrow> (st', calls)
      | (Thrown e, st', calls) \<Rightarrow> (st', calls @ [Send (ERROR e)]))"

text \<open>The handler stays registered for as long as the socket emits \<^verbatim>\<open>message\<close> events; it
  keeps no flag of its own and never reads the state of the socket. \<open>on_messages\<close> runs it
  on the frames the socket emits, each with the clock value of its arrival.\<close>

fun on_messages :: "string \<Rightarrow> (int \<times> frame) list \<Rightarrow> storage \<Rightarrow> storage \<times> ws_call list" where
  "on_messages sessionId [] st = (st, [])"
| "on_messages sessionId ((now, data) # rest) st =
     (case on_message sessionId now data st of
        (st1, calls1) \<Rightarrow>
          (case on_messages sessionId rest st1 of
             (st2, calls2) \<Rightarrow> (st2, calls1 @ calls2)))"

section \<open>The storage methods on a session that exists or not\<close>

lemma updateBrief_bound:
  "sessions st sid = Some s \<Longrightarrow>
   updateBrief sid u st =
     (Some (s\<lparr>brief := spread_brief (brief s) u\<rparr>),
      st\<lparr>sessions := (sessions st)(sid \<mapsto> s\<lparr>brief := spread_brief (brief s) u\<rparr>)\<rparr>)"
  by (simp add: updateBrief_def Let_def)

lemma updateBrief_unbound:
  "sessions st sid = None \<Longrightarrow> updateBrief sid u st = (None, st)"
  by (simp add: updateBrief_def)

lemma addApproval_bound:
  "sessions st sid = Some s \<Longrightarrow>
   addApproval sid a st =
     (Some (s\<lparr>approvals := approvals s @ [a]\<rparr>),
      st\<lparr>sessions := (sessions st)(sid \<mapsto> s\<lparr>approvals := approvals s @ [a]\<rparr>)\<rparr>)"
  by (simp add: addApproval_def Let_def)

lemma addApproval_unbound:
  "sessions st sid = None \<Longrightarrow> addApproval sid a st = (None, st)"
  by (simp add: addApproval_def)

lemma spread_brief_twice: "spread_brief (spread_brief b u) u = spread_brief b u"
  by (simp add: spread_brief_def split: option.splits)

lemma createSession_bound:
  "sessions (snd (createSession sid now st)) sid = Some (fst (createSession sid now st))"
  by (simp add: createSession_def Let_def)

lemma createSession_brief:
  "brief (fst (createSession sid now st)) =
     \<lparr> style = JNull, palette = JNull, finish = JNull, vibe = [], rooms = [],
       constraints = Map.empty, timeline = None, budget = None, openQuestions = [] \<rparr>"
  by (simp add: createSession_def Let_def)

lemma createSession_approvals: "approvals (fst (createSession sid now st)) = []"
  by (simp add: createSession_def Let_def)

lemma spread_style:
  "spread_brief b (no_updates\<lparr>u_style := Some v\<rparr>) = b\<lparr>style := v\<rparr>"
  by (simp add: spread_brief_def no_updates_def)

lemma spread_palette:
  "spread_brief b (no_updates\<lparr>u_palette := Some v\<rparr>) = b\<lparr>palette := v\<rparr>"
  by (simp add: spread_brief_def no_updates_def)

lemma spread_finish:
  "spread_brief b (no_updates\<lparr>u_finish := Some v\<rparr>) = b\<lparr>finish := v\<rparr>"
  by (simp add: spread_brief_def no_updates_def)

lemma spread_constraints:
  "spread_brief b (no_updates\<lparr>u_constraints := Some c\<rparr>) = b\<lparr>constraints := c\<rparr>"
  by (simp add: spread_brief_def no_updates_def)

section \<open>The branches of the handler\<close>

lemma get_prop_field:
  "get_prop m k = Inl TypeError \<and> field m k = JUndefined \<or> get_prop m k = Inr (field m k)"
  by (cases m) (simp_all add: field_def)

lemma get_prop_of_field_JStr:
  "field m k = JStr t \<Longrightarrow> get_prop m k = Inr (JStr t)"
  using get_prop_field [of m k] by auto

lemma try_block_Json:
  "try_block sid now (Json m) st =
     (if m = JNull \<or> m = JUndefined then (Thrown TypeError, st, [])
      else if field m ''type'' = JStr ''UI_RESPONSE'' then
        on_UI_RESPONSE sid now (field m ''promptId'') (field m ''selectedOptionId'') st
      else if field m ''type'' = JStr ''TODO_CONFIRM'' then
        on_TODO_CONFIRM sid now (field m ''ok'') st
      else if field m ''type'' = JStr ''AGENT_NOTE'' then
        on_AGENT_NOTE sid now (field m ''message'') st
      else if field m ''type'' = JStr ''PING'' then on_PING (field m ''ts'') st
      else (Returned, st, []))"
  by (cases m) (simp_all add: try_block_def field_def)

lemma try_block_UI_RESPONSE:
  "field m ''type'' = JStr ''UI_RESPONSE'' \<Longrightarrow>
   try_block sid now (Json m) st =
     on_UI_RESPONSE sid now (field m ''promptId'') (field m ''selectedOptionId'') st"
  by (simp add: try_block_def get_prop_of_field_JStr)

lemma try_block_TODO_CONFIRM:
  "field m ''type'' = JStr ''TODO_CONFIRM'' \<Longrightarrow>
   try_block sid now (Json m) st = on_TODO_CONFIRM sid now (field m ''ok'') st"
  by (simp add: try_block_def get_prop_of_field_JStr)

lemma try_block_AGENT_NOTE:
  "field m ''type'' = JStr ''AGENT_NOTE'' \<Longrightarrow>
   try_block sid now (Json m) st = on_AGENT_NOTE sid now (field m ''message'') st"
  by (simp add: try_block_def get_prop_of_field_JStr)

lemma try_block_PING:
  "field m ''type'' = JStr ''PING'' \<Longrightarrow>
   try_block sid now (Json m) st = on_PING (field m ''ts'') st"
  by (simp add: try_block_def get_prop_of_field_JStr)

text \<open>What a \<^verbatim>\<open>UI_RESPONSE\<close> does to a session that exists, when its prompt id is the
  string \<open>p\<close> and its selected option \<open>v\<close> converts to the string \<open>t\<close>.\<close>

lemma on_UI_RESPONSE_bound:
  assumes "sessions st sid = Some s" and "toString v = Inr t"
  shows "on_UI_RESPONSE sid now (JStr p) v st =
     (Returned,
      st\<lparr>sessions := (sessions st)(sid \<mapsto>
          s\<lparr>approvals := approvals s @ [\<lparr>a_ts = now, a_text = ''UI_RESPONSE '' @ p @ '' -> '' @ t\<rparr>],
            brief :=
              (if startsWith (toLowerCase p) ''style'' then (brief s)\<lparr>style := v\<rparr>
               else if startsWith (toLowerCase p) ''palette'' then (brief s)\<lparr>palette := v\<rparr>
               else if startsWith (toLowerCase p) ''finish'' then (brief s)\<lparr>finish := v\<rparr>
               else (brief s)\<lparr>constraints := (constraints (brief s))(p \<mapsto> v)\<rparr>)\<rparr>)\<rparr>,
      [])"
  using assms
  by (simp add: on_UI_RESPONSE_def addApproval_bound updateBrief_bound getSession_def Let_def
      spread_style spread_palette spread_finish spread_constraints)

lemma on_message_UI_RESPONSE_bound:
  assumes "sessions st sid = Some s"
    and "field m ''type'' = JStr ''UI_RESPONSE''"
    and "field m ''promptId'' = JStr p"
    and "toString (field m ''selectedOptionId'') = Inr t"
  shows "on_message sid now (Json m) st =
     (st\<lparr>sessions := (sessions st)(sid \<mapsto>
          s\<lparr>approvals := approvals s @ [\<lparr>a_ts = now, a_text = ''UI_RESPONSE '' @ p @ '' -> '' @ t\<rparr>],
            brief :=
              (if startsWith (toLowerCase p) ''style''
               then (brief s)\<lparr>style := field m ''selectedOptionId''\<rparr>
               else if startsWith (toLowerCase p) ''palette''
               then (brief s)\<lparr>palette := field m ''selectedOptionId''\<rparr>
               else if startsWith (toLowerCase p) ''finish''
               then (brief s)\<lparr>finish := field m ''selectedOptionId''\<rparr>
               else (brief s)\<lparr>constraints :=
                      (constraints (brief s))(p \<mapsto> field m ''selectedOptionId'')\<rparr>)\<rparr>)\<rparr>,
      [])"
  using assms
  by (simp add: on_message_def try_block_UI_RESPONSE on_UI_RESPONSE_bound)

lemmas handler_defs =
  on_message_def try_block_def on_UI_RESPONSE_def on_TODO_CONFIRM_def on_AGENT_NOTE_def
  on_PING_def field_def addApproval_def updateBrief_def getSession_def spread_brief_def
  no_updates_def startsWith_def toLowerCase_def toLowerChar_def on_connection_def
  createSession_def new_storage_def fallback_items_def Let_def

section \<open>The session a connection is bound to\<close>

text \<open>An accepted connection has its session in the storage, and no message removes a
  session: the hypothesis \<open>sessions st sessionId = Some s\<close> of the theorems below holds
  whenever the handler runs.\<close>

lemma on_connection_binds:
  "on_connection param now st = (st', Some sessionId, calls) \<Longrightarrow>
   param = Some sessionId \<and> sessions st' sessionId \<noteq> None \<and> calls = []"
  by (auto simp: on_connection_def getSession_def createSession_def Let_def
      split: option.splits if_splits)

lemma dom_addApproval: "dom (sessions (snd (addApproval sid a st))) = dom (sessions st)"
  by (cases "sessions st sid") (auto simp: addApproval_unbound addApproval_bound)

lemma dom_updateBrief: "dom (sessions (snd (updateBrief sid u st))) = dom (sessions st)"
  by (cases "sessions st sid") (auto simp: updateBrief_unbound updateBrief_bound)

lemma dom_on_UI_RESPONSE:
  "dom (sessions (fst (snd (on_UI_RESPONSE sid now pid sel st)))) = dom (sessions st)"
  by (simp add: on_UI_RESPONSE_def Let_def dom_addApproval dom_updateBrief
      split: sum.splits option.splits)

lemma dom_on_TODO_CONFIRM:
  "dom (sessions (fst (snd (on_TODO_CONFIRM sid now ok st)))) = dom (sessions st)"
  by (simp add: on_TODO_CONFIRM_def Let_def dom_addApproval split: sum.splits)

lemma dom_on_AGENT_NOTE:
  "dom (sessions (fst (snd (on_AGENT_NOTE sid now msg st)))) = dom (sessions st)"
  by (simp add: on_AGENT_NOTE_def Let_def dom_addApproval split: sum.splits)

lemma dom_on_PING:
  "dom (sessions (fst (snd (on_PING ts st)))) = dom (sessions st)"
  by (simp add: on_PING_def split: sum.splits)

lemma dom_try_block:
  "dom (sessions (fst (snd (try_block sid now data st)))) = dom (sessions st)"
proof (cases data)
  case NotJson
  then show ?thesis
    by (simp add: try_block_def)
next
  case (Json m)
  then show ?thesis
    by (simp add: try_block_Json dom_on_UI_RESPONSE dom_on_TODO_CONFIRM dom_on_AGENT_NOTE
        dom_on_PING)
qed

lemma on_message_keeps_sessions:
  "dom (sessions (fst (on_message sid now data st))) = dom (sessions st)"
proof (cases "try_block sid now data st")
  case (fields out st' calls)
  with dom_try_block [of sid now data st] show ?thesis
    by (cases out) (simp_all add: on_message_def)
qed

section \<open>\<^verbatim>\<open>updateBrief\<close>\<close>

text \<open>
  Claim C9. Updating a brief twice with the same updates gives the same brief as updating it
  once: for the spread \<^verbatim>\<open>{ ...brief, ...updates }\<close> itself, and for \<^verbatim>\<open>updateBrief\<close> on
  the storage, whether the session exists or not.
\<close>

theorem updateBrief_idempotent:
  "spread_brief (spread_brief b u) u = spread_brief b u \<and>
   snd (updateBrief sid u (snd (updateBrief sid u st))) = snd (updateBrief sid u st)"
proof (cases "sessions st sid")
  case None
  then show ?thesis
    by (simp add: updateBrief_unbound spread_brief_twice)
next
  case (Some s)
  then show ?thesis
    by (simp add: updateBrief_bound spread_brief_twice)
qed

text \<open>
  Claim C3, as stated, fails. \<^verbatim>\<open>updateBrief\<close> does not merge \<^verbatim>\<open>updates.constraints\<close> into
  the constraints of the brief: a session whose constraints are \<^verbatim>\<open>{wall: "north"}\<close>,
  updated with \<^verbatim>\<open>{constraints: {frame: "oak"}}\<close>, has the constraints
  \<^verbatim>\<open>{frame: "oak"}\<close> afterwards, and the key \<^verbatim>\<open>wall\<close> is gone.
\<close>

theorem updateBrief_constraints_counterexample:
  "(case sessions
           (snd (updateBrief ''abc123''
                   (no_updates\<lparr>u_constraints := Some [''frame'' \<mapsto> JStr ''oak'']\<rparr>)
                   (snd (updateBrief ''abc123''
                           (no_updates\<lparr>u_constraints := Some [''wall'' \<mapsto> JStr ''north'']\<rparr>)
                           (snd (createSession ''abc123'' 0 new_storage))))))
           ''abc123'' of
      None \<Rightarrow> False
    | Some s \<Rightarrow>
        constraints (brief s) ''wall'' = None \<and>
        constraints (brief s) ''frame'' = Some (JStr ''oak''))"
  by (simp add: updateBrief_def createSession_def new_storage_def spread_brief_def
      no_updates_def Let_def)

text \<open>
  Claim C3, amended. On a session that exists, \<^verbatim>\<open>updateBrief\<close> replaces the value of every
  key present in the updates, \<^verbatim>\<open>constraints\<close> included, by the value given, and leaves
  every key that is absent from the updates as it was; nothing else of the session or of the
  storage changes. (The merge into \<^verbatim>\<open>constraints\<close> is made by the caller, in the
  \<^verbatim>\<open>UI_RESPONSE\<close> branch of the handler.)
\<close>

theorem updateBrief_replaces_present_keys:
  assumes "sessions st sid = Some s"
  shows "\<exists>b'. updateBrief sid u st =
           (Some (s\<lparr>brief := b'\<rparr>), st\<lparr>sessions := (sessions st)(sid \<mapsto> s\<lparr>brief := b'\<rparr>)\<rparr>) \<and>
         style b' = (case u_style u of Some v \<Rightarrow> v | None \<Rightarrow> style (brief s)) \<and>
         palette b' = (case u_palette u of Some v \<Rightarrow> v | None \<Rightarrow> palette (brief s)) \<and>
         finish b' = (case u_finish u of Some v \<Rightarrow> v | None \<Rightarrow> finish (brief s)) \<and>
         vibe b' = (case u_vibe u of Some v \<Rightarrow> v | None \<Rightarrow> vibe (brief s)) \<and>
         rooms b' = (case u_rooms u of Some v \<Rightarrow> v | None \<Rightarrow> rooms (brief s)) \<and>
         constraints b' =
           (case u_constraints u of Some c \<Rightarrow> c | None \<Rightarrow> constraints (brief s)) \<and>
         timeline b' = (case u_timeline u of Some v \<Rightarrow> v | None \<Rightarrow> timeline (brief s)) \<and>
         budget b' = (case u_budget u of Some v \<Rightarrow> v | None \<Rightarrow> budget (brief s)) \<and>
         openQuestions b' =
           (case u_openQuestions u of Some v \<Rightarrow> v | None \<Rightarrow> openQuestions (brief s))"
proof -
  let ?b = "spread_brief (brief s) u"
  have "updateBrief sid u st =
          (Some (s\<lparr>brief := ?b\<rparr>), st\<lparr>sessions := (sessions st)(sid \<mapsto> s\<lparr>brief := ?b\<rparr>)\<rparr>)"
    using assms by (rule updateBrief_bound)
  then show ?thesis
    by (intro exI [of _ ?b]) (simp add: spread_brief_def split: option.splits)
qed

theorem updateBrief_replaces_present_keys_witness:
  "(case sessions
           (snd (updateBrief ''abc123''
                   (no_updates\<lparr>u_style := Some (JStr ''bold'')\<rparr>)
                   (snd (createSession ''abc123'' 0 new_storage))))
           ''abc123'' of
      None \<Rightarrow> False
    | Some s \<Rightarrow> style (brief s) = JStr ''bold'' \<and> palette (brief s) = JNull)"
proof -
  let ?st = "snd (createSession ''abc123'' 0 new_storage)"
  let ?s = "fst (createSession ''abc123'' 0 new_storage)"
  let ?u = "no_updates\<lparr>u_style := Some (JStr ''bold'')\<rparr>"
  have s: "sessions ?st ''abc123'' = Some ?s"
    by (rule createSession_bound)
  have p: "palette (brief ?s) = JNull"
    by (simp add: createSession_brief)
  from updateBrief_replaces_present_keys [OF s, of ?u] p show ?thesis
    by (auto simp: no_updates_def)
qed

section \<open>\<^verbatim>\<open>UI_RESPONSE\<close>\<close>

text \<open>
  Claim C1. On a session that exists, a \<^verbatim>\<open>UI_RESPONSE\<close> whose \<^verbatim>\<open>promptId\<close> is a string
  that begins, once lowercased, with \<^verbatim>\<open>style\<close>, \<^verbatim>\<open>palette\<close> or \<^verbatim>\<open>finish\<close> leaves the
  brief of the session as it was except for that one field, which now holds
  \<^verbatim>\<open>selectedOptionId\<close>. The selected option may be any value that a template literal can
  convert to a string; every string is (\<open>toString (JStr x) = Inr x\<close>), which is what the
  schema \<^verbatim>\<open>UIResponseMsgSchema\<close> has.
\<close>

theorem ui_response_replaces_scalar:
  assumes "sessions st sessionId = Some s"
    and "field message ''type'' = JStr ''UI_RESPONSE''"
    and "field message ''promptId'' = JStr p"
    and "toString (field message ''selectedOptionId'') = Inr t"
    and "startsWith (toLowerCase p) ''style'' \<or> startsWith (toLowerCase p) ''palette'' \<or>
         startsWith (toLowerCase p) ''finish''"
  shows "\<exists>s'. sessions (fst (on_message sessionId now (Json message) st)) sessionId = Some s' \<and>
           brief s' =
             (if startsWith (toLowerCase p) ''style''
              then (brief s)\<lparr>style := field message ''selectedOptionId''\<rparr>
              else if startsWith (toLowerCase p) ''palette''
              then (brief s)\<lparr>palette := field message ''selectedOptionId''\<rparr>
              else (brief s)\<lparr>finish := field message ''selectedOptionId''\<rparr>)"
  using assms(5) by (auto simp add: on_message_UI_RESPONSE_bound [OF assms(1-4)])

theorem ui_response_replaces_scalar_witness:
  "(case sessions
          (fst (on_message ''abc123'' 5
                  (Json (JObj [(''type'', JStr ''UI_RESPONSE''),
                               (''promptId'', JStr ''Palette_main''),
                               (''selectedOptionId'', JStr ''warm'')]))
                  (snd (createSession ''abc123'' 0 new_storage))))
          ''abc123'' of
      None \<Rightarrow> False
    | Some s' \<Rightarrow>
        brief s' =
          \<lparr> style = JNull, palette = JStr ''warm'', finish = JNull, vibe = [], rooms = [],
            constraints = Map.empty, timeline = None, budget = None, openQuestions = [] \<rparr>)"
proof -
  let ?m = "JObj [(''type'', JStr ''UI_RESPONSE''), (''promptId'', JStr ''Palette_main''),
                  (''selectedOptionId'', JStr ''warm'')]"
  let ?st = "snd (createSession ''abc123'' 0 new_storage)"
  let ?s = "fst (createSession ''abc123'' 0 new_storage)"
  have 1: "sessions ?st ''abc123'' = Some ?s"
    by (rule createSession_bound)
  have 2: "field ?m ''type'' = JStr ''UI_RESPONSE''"
    by (simp add: field_def)
  have 3: "field ?m ''promptId'' = JStr ''Palette_main''"
    by (simp add: field_def)
  have 4: "toString (field ?m ''selectedOptionId'') = Inr ''warm''"
    by (simp add: field_def)
  have 5: "startsWith (toLowerCase ''Palette_main'') ''style'' \<or>
           startsWith (toLowerCase ''Palette_main'') ''palette'' \<or>
           startsWith (toLowerCase ''Palette_main'') ''finish''"
    by (simp add: startsWith_def toLowerCase_def toLowerChar_def)
  have 6: "\<not> startsWith (toLowerCase ''Palette_main'') ''style''"
    by (simp add: startsWith_def toLowerCase_def toLowerChar_def)
  have 7: "startsWith (toLowerCase ''Palette_main'') ''palette''"
    by (simp add: startsWith_def toLowerCase_def toLowerChar_def)
  from ui_response_replaces_scalar [OF 1 2 3 4 5, of 5] obtain s' where
    "sessions (fst (on_message ''abc123'' 5 (Json ?m) ?st)) ''abc123'' = Some s'"
    "brief s' = (brief ?s)\<lparr>palette := field ?m ''selectedOptionId''\<rparr>"
    using 6 7 by auto
  then show ?thesis
    by (simp add: field_def createSession_brief)
qed

text \<open>
  Claim C2. On a session that exists, a \<^verbatim>\<open>UI_RESPONSE\<close> whose \<^verbatim>\<open>promptId\<close> is a string
  that does not begin, once lowercased, with \<^verbatim>\<open>style\<close>, \<^verbatim>\<open>palette\<close> or \<^verbatim>\<open>finish\<close>
  writes one key of \<^verbatim>\<open>brief.constraints\<close>: that key now maps to \<^verbatim>\<open>selectedOptionId\<close>,
  whether it was there before or not, and every other key has the value it had, or is still
  absent.
\<close>

theorem ui_response_merges_one_constraint:
  assumes "sessions st sessionId = Some s"
    and "field message ''type'' = JStr ''UI_RESPONSE''"
    and "field message ''promptId'' = JStr p"
    and "toString (field message ''selectedOptionId'') = Inr t"
    and "\<not> startsWith (toLowerCase p) ''style''"
    and "\<not> startsWith (toLowerCase p) ''palette''"
    and "\<not> startsWith (toLowerCase p) ''finish''"
  shows "\<exists>s'. sessions (fst (on_message sessionId now (Json message) st)) sessionId = Some s' \<and>
           constraints (brief s') p = Some (field message ''selectedOptionId'') \<and>
           (\<forall>k. k \<noteq> p \<longrightarrow> constraints (brief s') k = constraints (brief s) k)"
  using assms(5-7) by (simp add: on_message_UI_RESPONSE_bound [OF assms(1-4)])

theorem ui_response_merges_one_constraint_witness:
  "(case sessions
          (fst (on_message ''abc123'' 6
                  (Json (JObj [(''type'', JStr ''UI_RESPONSE''),
                               (''promptId'', JStr ''frame''),
                               (''selectedOptionId'', JStr ''oak'')]))
                  (fst (on_message ''abc123'' 5
                          (Json (JObj [(''type'', JStr ''UI_RESPONSE''),
                                       (''promptId'', JStr ''wall''),
                                       (''selectedOptionId'', JStr ''north'')]))
                          (snd (createSession ''abc123'' 0 new_storage))))))
          ''abc123'' of
      None \<Rightarrow> False
    | Some s' \<Rightarrow>
        constraints (brief s') ''frame'' = Some (JStr ''oak'') \<and>
        constraints (brief s') ''wall'' = Some (JStr ''north''))"
proof -
  let ?m1 = "JObj [(''type'', JStr ''UI_RESPONSE''), (''promptId'', JStr ''wall''),
                   (''selectedOptionId'', JStr ''north'')]"
  let ?m2 = "JObj [(''type'', JStr ''UI_RESPONSE''), (''promptId'', JStr ''frame''),
                   (''selectedOptionId'', JStr ''oak'')]"
  let ?st0 = "snd (createSession ''abc123'' 0 new_storage)"
  let ?s0 = "fst (createSession ''abc123'' 0 new_storage)"
  let ?st1 = "fst (on_message ''abc123'' 5 (Json ?m1) ?st0)"
  have b0: "sessions ?st0 ''abc123'' = Some ?s0"
    by (rule createSession_bound)
  have w: "\<not> startsWith (toLowerCase ''wall'') ''style''"
      "\<not> startsWith (toLowerCase ''wall'') ''palette''"
      "\<not> startsWith (toLowerCase ''wall'') ''finish''"
    by (simp_all add: startsWith_def toLowerCase_def toLowerChar_def)
  have f: "\<not> startsWith (toLowerCase ''frame'') ''style''"
      "\<not> startsWith (toLowerCase ''frame'') ''palette''"
      "\<not> startsWith (toLowerCase ''frame'') ''finish''"
    by (simp_all add: startsWith_def toLowerCase_def toLowerChar_def)
  have m1: "field ?m1 ''type'' = JStr ''UI_RESPONSE''" "field ?m1 ''promptId'' = JStr ''wall''"
      "toString (field ?m1 ''selectedOptionId'') = Inr ''north''"
    by (simp_all add: field_def)
  have m2: "field ?m2 ''type'' = JStr ''UI_RESPONSE''" "field ?m2 ''promptId'' = JStr ''frame''"
      "toString (field ?m2 ''selectedOptionId'') = Inr ''oak''"
    by (simp_all add: field_def)
  from ui_response_merges_one_constraint [OF b0 m1 w, of 5] obtain s1 where
    s1: "sessions ?st1 ''abc123'' = Some s1"
      "constraints (brief s1) ''wall'' = Some (field ?m1 ''selectedOptionId'')"
    by blast
  from ui_response_merges_one_constraint [OF s1(1) m2 f, of 6] obtain s2 where
    s2: "sessions (fst (on_message ''abc123'' 6 (Json ?m2) ?st1)) ''abc123'' = Some s2"
      "constraints (brief s2) ''frame'' = Some (field ?m2 ''selectedOptionId'')"
      "\<forall>k. k \<noteq> ''frame'' \<longrightarrow> constraints (brief s2) k = constraints (brief s1) k"
    by blast
  from s2(3) have "constraints (brief s2) ''wall'' = constraints (brief s1) ''wall''"
    by simp
  with s1(2) s2(1,2) show ?thesis
    by (simp add: field_def)
qed

text \<open>
  Claim C10. The prompt id is lowercased for the three prefix tests only. When a test
  succeeds, as for \<^verbatim>\<open>STYLE_x\<close>, the matching field gets \<^verbatim>\<open>selectedOptionId\<close> and
  \<^verbatim>\<open>constraints\<close> is what it was. When none does, \<^verbatim>\<open>constraints\<close> gets the key \<open>p\<close>,
  the prompt id as it was received, and no other key.
\<close>

theorem ui_response_key_keeps_case:
  assumes "sessions st sessionId = Some s"
    and "field message ''type'' = JStr ''UI_RESPONSE''"
    and "field message ''promptId'' = JStr p"
    and "toString (field message ''selectedOptionId'') = Inr t"
  shows "\<exists>s'. sessions (fst (on_message sessionId now (Json message) st)) sessionId = Some s' \<and>
           (if startsWith (toLowerCase p) ''style'' then
              style (brief s') = field message ''selectedOptionId'' \<and>
              constraints (brief s') = constraints (brief s)
            else if startsWith (toLowerCase p) ''palette'' then
              palette (brief s') = field message ''selectedOptionId'' \<and>
              constraints (brief s') = constraints (brief s)
            else if startsWith (toLowerCase p) ''finish'' then
              finish (brief s') = field message ''selectedOptionId'' \<and>
              constraints (brief s') = constraints (brief s)
            else
              constraints (brief s') =
                (constraints (brief s))(p \<mapsto> field message ''selectedOptionId''))"
  by (simp add: on_message_UI_RESPONSE_bound [OF assms])

theorem ui_response_key_keeps_case_witness:
  "(case sessions
          (fst (on_message ''abc123'' 5
                  (Json (JObj [(''type'', JStr ''UI_RESPONSE''),
                               (''promptId'', JStr ''STYLE_x''),
                               (''selectedOptionId'', JStr ''bold'')]))
                  (snd (createSession ''abc123'' 0 new_storage))))
          ''abc123'' of
      None \<Rightarrow> False
    | Some s' \<Rightarrow> style (brief s') = JStr ''bold'' \<and> constraints (brief s') = Map.empty) \<and>
   (case sessions
          (fst (on_message ''abc123'' 5
                  (Json (JObj [(''type'', JStr ''UI_RESPONSE''),
                               (''promptId'', JStr ''Wall_Size''),
                               (''selectedOptionId'', JStr ''large'')]))
                  (snd (createSession ''abc123'' 0 new_storage))))
          ''abc123'' of
      None \<Rightarrow> False
    | Some s' \<Rightarrow>
        constraints (brief s') ''Wall_Size'' = Some (JStr ''large'') \<and>
        constraints (brief s') ''wall_size'' = None)"
proof -
  let ?m1 = "JObj [(''type'', JStr ''UI_RESPONSE''), (''promptId'', JStr ''STYLE_x''),
                   (''selectedOptionId'', JStr ''bold'')]"
  let ?m2 = "JObj [(''type'', JStr ''UI_RESPONSE''), (''promptId'', JStr ''Wall_Size''),
                   (''selectedOptionId'', JStr ''large'')]"
  let ?st0 = "snd (createSession ''abc123'' 0 new_storage)"
  let ?s0 = "fst (createSession ''abc123'' 0 new_storage)"
  have b0: "sessions ?st0 ''abc123'' = Some ?s0"
    by (rule createSession_bound)
  have c0: "constraints (brief ?s0) = Map.empty"
    by (simp add: createSession_brief)
  have m1: "field ?m1 ''type'' = JStr ''UI_RESPONSE''" "field ?m1 ''promptId'' = JStr ''STYLE_x''"
      "toString (field ?m1 ''selectedOptionId'') = Inr ''bold''"
    by (simp_all add: field_def)
  have m2: "field ?m2 ''type'' = JStr ''UI_RESPONSE''"
      "field ?m2 ''promptId'' = JStr ''Wall_Size''"
      "toString (field ?m2 ''selectedOptionId'') = Inr ''large''"
    by (simp_all add: field_def)
  have p1: "startsWith (toLowerCase ''STYLE_x'') ''style''"
    by (simp add: startsWith_def toLowerCase_def toLowerChar_def)
  have p2: "\<not> startsWith (toLowerCase ''Wall_Size'') ''style''"
      "\<not> startsWith (toLowerCase ''Wall_Size'') ''palette''"
      "\<not> startsWith (toLowerCase ''Wall_Size'') ''finish''"
    by (simp_all add: startsWith_def toLowerCase_def toLowerChar_def)
  from ui_response_key_keeps_case [OF b0 m1, of 5] p1 c0 have
    "case sessions (fst (on_message ''abc123'' 5 (Json ?m1) ?st0)) ''abc123'' of
       None \<Rightarrow> False
     | Some s' \<Rightarrow> style (brief s') = JStr ''bold'' \<and> constraints (brief s') = Map.empty"
    by (auto simp: field_def)
  moreover from ui_response_key_keeps_case [OF b0 m2, of 5] p2 c0 have
    "case sessions (fst (on_message ''abc123'' 5 (Json ?m2) ?st0)) ''abc123'' of
       None \<Rightarrow> False
     | Some s' \<Rightarrow>
         constraints (brief s') ''Wall_Size'' = Some (JStr ''large'') \<and>
         constraints (brief s') ''wall_size'' = None"
    by (auto simp: field_def)
  ultimately show ?thesis
    by simp
qed

section \<open>\<^verbatim>\<open>TODO_CONFIRM\<close>\<close>

lemma falsy_toString: "\<not> truthy v \<Longrightarrow> \<exists>t. toString v = Inr t"
  by (cases v) simp_all

lemma on_message_TODO_CONFIRM_calls:
  assumes "field m ''type'' = JStr ''TODO_CONFIRM''" and "toString (field m ''ok'') = Inr t"
  shows "snd (on_message sid now (Json m) st) =
     (if truthy (field m ''ok'')
      then [Send (CALL_FINISHED sid), Close 1000 ''Call finished'']
      else [Send (TODO_PREVIEW fallback_items)])"
  using assms
  by (simp add: on_message_def try_block_TODO_CONFIRM on_TODO_CONFIRM_def Let_def)

text \<open>
  Claim C5. A \<^verbatim>\<open>TODO_CONFIRM\<close> whose \<^verbatim>\<open>ok\<close> is \<^verbatim>\<open>false\<close>, or any other falsy value, makes
  the handler send one message, the \<^verbatim>\<open>TODO_PREVIEW\<close> with the five items of the source in
  their order, and make no other call on the socket: it does not close the connection.
\<close>

theorem todo_confirm_false_sends_preview:
  assumes "field message ''type'' = JStr ''TODO_CONFIRM''"
    and "\<not> truthy (field message ''ok'')"
  shows "snd (on_message sessionId now (Json message) st) =
     [Send (TODO_PREVIEW
        [''Review and finalize painting style preferences'',
         ''Confirm color palette selections'',
         ''Schedule initial consultation call'',
         ''Review project timeline and milestones'',
         ''Prepare room measurements and photos''])] \<and>
     (\<forall>code reason. Close code reason \<notin> set (snd (on_message sessionId now (Json message) st)))"
proof -
  from assms(2) obtain t where "toString (field message ''ok'') = Inr t"
    using falsy_toString by blast
  with assms show ?thesis
    by (simp add: on_message_TODO_CONFIRM_calls fallback_items_def)
qed

theorem todo_confirm_false_sends_preview_witness:
  "snd (on_message ''abc123'' 7
          (Json (JObj [(''type'', JStr ''TODO_CONFIRM''), (''ok'', JBool False)]))
          (snd (createSession ''abc123'' 0 new_storage))) =
     [Send (TODO_PREVIEW
        [''Review and finalize painting style preferences'',
         ''Confirm color palette selections'',
         ''Schedule initial consultation call'',
         ''Review project timeline and milestones'',
         ''Prepare room measurements and photos''])]"
proof -
  let ?m = "JObj [(''type'', JStr ''TODO_CONFIRM''), (''ok'', JBool False)]"
  have 1: "field ?m ''type'' = JStr ''TODO_CONFIRM''"
    by (simp add: field_def)
  have 2: "\<not> truthy (field ?m ''ok'')"
    by (simp add: field_def)
  from todo_confirm_false_sends_preview [OF 1 2] show ?thesis
    by blast
qed

text \<open>
  Claim C6, as stated, fails in its last part. The handler is registered once, with
  \<^verbatim>\<open>ws.on("message", ...)\<close>, and has no guard for a connection it has closed. When the
  socket emits a \<^verbatim>\<open>UI_RESPONSE\<close> after the \<^verbatim>\<open>TODO_CONFIRM\<close> with \<^verbatim>\<open>ok: true\<close>, the calls
  on the socket are the \<^verbatim>\<open>CALL_FINISHED\<close> and the close and nothing more, but the later
  frame has been processed: the session has a second approval and its style is set.
\<close>

theorem todo_confirm_true_later_frame_counterexample:
  "(case on_messages ''abc123''
          [(1, Json (JObj [(''type'', JStr ''TODO_CONFIRM''), (''ok'', JBool True)])),
           (2, Json (JObj [(''type'', JStr ''UI_RESPONSE''),
                           (''promptId'', JStr ''style_modern''),
                           (''selectedOptionId'', JStr ''bold'')]))]
          (snd (createSession ''abc123'' 0 new_storage)) of
      (st', calls) \<Rightarrow>
        calls = [Send (CALL_FINISHED ''abc123''), Close 1000 ''Call finished''] \<and>
        (case sessions st' ''abc123'' of
           None \<Rightarrow> False
         | Some s' \<Rightarrow>
             style (brief s') = JStr ''bold'' \<and>
             approvals s' =
               [\<lparr>a_ts = 1, a_text = ''TODO_CONFIRM ok=true''\<rparr>,
                \<lparr>a_ts = 2, a_text = ''UI_RESPONSE style_modern -> bold''\<rparr>]))"
  by (simp add: handler_defs)

text \<open>
  Claim C6, amended. A \<^verbatim>\<open>TODO_CONFIRM\<close> whose \<^verbatim>\<open>ok\<close> is \<^verbatim>\<open>true\<close>, or any other truthy
  value that a template literal can convert to a string, makes the handler send
  \<^verbatim>\<open>CALL_FINISHED\<close> with the session id of the connection and then close the socket with
  the code 1000 and the reason \<^verbatim>\<open>Call finished\<close>; it makes no other call on the socket.
\<close>

theorem todo_confirm_true_finishes_call:
  assumes "field message ''type'' = JStr ''TODO_CONFIRM''"
    and "truthy (field message ''ok'')"
    and "toString (field message ''ok'') = Inr t"
  shows "snd (on_message sessionId now (Json message) st) =
     [Send (CALL_FINISHED sessionId), Close 1000 ''Call finished'']"
  using assms by (simp add: on_message_TODO_CONFIRM_calls)

theorem todo_confirm_true_finishes_call_witness:
  "snd (on_message ''abc123'' 7
          (Json (JObj [(''type'', JStr ''TODO_CONFIRM''), (''ok'', JBool True)]))
          (snd (createSession ''abc123'' 0 new_storage))) =
     [Send (CALL_FINISHED ''abc123''), Close 1000 ''Call finished'']"
proof -
  let ?m = "JObj [(''type'', JStr ''TODO_CONFIRM''), (''ok'', JBool True)]"
  have 1: "field ?m ''type'' = JStr ''TODO_CONFIRM''"
    by (simp add: field_def)
  have 2: "truthy (field ?m ''ok'')"
    by (simp add: field_def)
  have 3: "toString (field ?m ''ok'') = Inr ''true''"
    by (simp add: field_def)
  from todo_confirm_true_finishes_call [OF 1 2 3] show ?thesis .
qed

section \<open>The \<^verbatim>\<open>if\<close>/\<^verbatim>\<open>else if\<close> chain and the \<^verbatim>\<open>catch\<close>\<close>

lemma on_UI_RESPONSE_Returned:
  "fst (on_UI_RESPONSE sid now pid sel st) = Returned \<Longrightarrow>
   (\<exists>p. pid = JStr p) \<and> (\<exists>t. toString sel = Inr t)"
  by (cases pid) (auto simp: on_UI_RESPONSE_def Let_def split: sum.splits)

lemma on_UI_RESPONSE_Thrown:
  "on_UI_RESPONSE sid now pid sel st = (Thrown e, st', calls) \<Longrightarrow>
   calls = [] \<and> (st' = st \<or> (\<exists>a. st' = snd (addApproval sid a st)))"
  by (auto simp: on_UI_RESPONSE_def Let_def split: sum.splits if_splits option.splits)

lemma on_TODO_CONFIRM_Returned:
  "on_TODO_CONFIRM sid now ok st = (Returned, st', calls) \<Longrightarrow>
   \<exists>a. st' = snd (addApproval sid a st)"
  by (auto simp: on_TODO_CONFIRM_def Let_def split: sum.splits if_splits)

lemma on_TODO_CONFIRM_Thrown:
  "on_TODO_CONFIRM sid now ok st = (Thrown e, st', calls) \<Longrightarrow> calls = [] \<and> st' = st"
  by (auto simp: on_TODO_CONFIRM_def Let_def split: sum.splits if_splits)

lemma on_AGENT_NOTE_Returned:
  "on_AGENT_NOTE sid now msg st = (Returned, st', calls) \<Longrightarrow>
   (if truthy msg then \<exists>a. st' = snd (addApproval sid a st) else st' = st)"
  by (auto simp: on_AGENT_NOTE_def Let_def split: sum.splits if_splits)

lemma on_AGENT_NOTE_Thrown:
  "on_AGENT_NOTE sid now msg st = (Thrown e, st', calls) \<Longrightarrow>
   calls = [] \<and> (st' = st \<or> (\<exists>a. st' = snd (addApproval sid a st)))"
  by (auto simp: on_AGENT_NOTE_def Let_def split: sum.splits if_splits)

lemma on_PING_effect:
  "on_PING ts st = (out, st', calls) \<Longrightarrow> st' = st \<and> calls = [Send (PONG ts)]"
  by (auto simp: on_PING_def split: sum.splits)

lemma try_block_Thrown:
  assumes "try_block sid now data st = (Thrown e, st', calls)"
  shows "(calls = [] \<or> (\<exists>ts. calls = [Send (PONG ts)])) \<and>
         (st' = st \<or> (\<exists>a. st' = snd (addApproval sid a st)))"
proof (cases data)
  case NotJson
  with assms show ?thesis
    by (simp add: try_block_def)
next
  case (Json m)
  with assms show ?thesis
    by (auto simp: try_block_Json split: if_splits
        dest: on_UI_RESPONSE_Thrown on_TODO_CONFIRM_Thrown on_AGENT_NOTE_Thrown on_PING_effect)
qed

lemma addApproval_keeps_briefs:
  "map_option brief (sessions (snd (addApproval sid a st)) k) = map_option brief (sessions st k)"
  by (cases "sessions st sid") (simp_all add: addApproval_unbound addApproval_bound)

lemma on_message_cases:
  "(\<exists>st' calls. try_block sid now data st = (Returned, st', calls) \<and>
       on_message sid now data st = (st', calls)) \<or>
   (\<exists>e st' calls. try_block sid now data st = (Thrown e, st', calls) \<and>
       on_message sid now data st = (st', calls @ [Send (ERROR e)]))"
proof (cases "try_block sid now data st")
  case (fields out st' calls)
  then show ?thesis
    by (cases out) (simp_all add: on_message_def)
qed

text \<open>
  Claim C4, as stated, fails. The chain has no final \<^verbatim>\<open>else\<close>: for a message of another
  type, here \<^verbatim>\<open>{"type": "FOO"}\<close>, the handler sends nothing, no \<^verbatim>\<open>ERROR\<close> either, and
  leaves the storage as it was.
\<close>

theorem unknown_type_no_error_counterexample:
  "on_message ''abc123'' 5 (Json (JObj [(''type'', JStr ''FOO'')]))
     (snd (createSession ''abc123'' 0 new_storage)) =
   (snd (createSession ''abc123'' 0 new_storage), [])"
  by (simp add: on_message_def try_block_def)

text \<open>
  Claim C4, amended. For a frame that parses as a JSON object whose \<^verbatim>\<open>type\<close> is none of
  \<^verbatim>\<open>UI_RESPONSE\<close>, \<^verbatim>\<open>TODO_CONFIRM\<close>, \<^verbatim>\<open>AGENT_NOTE\<close> and \<^verbatim>\<open>PING\<close> (or is missing), the
  handler makes no call on the socket and leaves the whole storage as it was.
\<close>

theorem unknown_type_ignored:
  assumes "field (JObj ps) ''type'' \<noteq> JStr ''UI_RESPONSE''"
    and "field (JObj ps) ''type'' \<noteq> JStr ''TODO_CONFIRM''"
    and "field (JObj ps) ''type'' \<noteq> JStr ''AGENT_NOTE''"
    and "field (JObj ps) ''type'' \<noteq> JStr ''PING''"
  shows "on_message sessionId now (Json (JObj ps)) st = (st, [])"
  using assms by (simp add: on_message_def try_block_Json)

theorem unknown_type_ignored_witness:
  "on_message ''abc123'' 5
     (Json (JObj [(''type'', JStr ''HELLO''), (''promptId'', JStr ''style'')]))
     (snd (createSession ''abc123'' 0 new_storage)) =
   (snd (createSession ''abc123'' 0 new_storage), [])"
proof -
  let ?ps = "[(''type'', JStr ''HELLO''), (''promptId'', JStr ''style'')]"
  have "field (JObj ?ps) ''type'' = JStr ''HELLO''"
    by (simp add: field_def)
  then have "field (JObj ?ps) ''type'' \<noteq> JStr ''UI_RESPONSE''"
    "field (JObj ?ps) ''type'' \<noteq> JStr ''TODO_CONFIRM''"
    "field (JObj ?ps) ''type'' \<noteq> JStr ''AGENT_NOTE''"
    "field (JObj ?ps) ''type'' \<noteq> JStr ''PING''"
    by simp_all
  then show ?thesis
    by (rule unknown_type_ignored)
qed

text \<open>
  Claim C8, as stated, fails for a frame whose handling throws. The \<^verbatim>\<open>UI_RESPONSE\<close>
  branch stores the approval before it calls \<^verbatim>\<open>message.promptId.toLowerCase()\<close>; for
  \<^verbatim>\<open>{"type": "UI_RESPONSE"}\<close> that call throws a \<^verbatim>\<open>TypeError\<close>, the handler replies with
  one \<^verbatim>\<open>ERROR\<close>, and the approvals of the session, empty before, have one entry.
\<close>

theorem throw_after_approval_counterexample:
  "fst (try_block ''abc123'' 5 (Json (JObj [(''type'', JStr ''UI_RESPONSE'')]))
          (snd (createSession ''abc123'' 0 new_storage))) = Thrown TypeError \<and>
   approvals (fst (createSession ''abc123'' 0 new_storage)) = [] \<and>
   (case on_message ''abc123'' 5 (Json (JObj [(''type'', JStr ''UI_RESPONSE'')]))
           (snd (createSession ''abc123'' 0 new_storage)) of
      (st', calls) \<Rightarrow>
        calls = [Send (ERROR TypeError)] \<and>
        (case sessions st' ''abc123'' of
           None \<Rightarrow> False
         | Some s' \<Rightarrow>
             approvals s' = [\<lparr>a_ts = 5, a_text = ''UI_RESPONSE undefined -> undefined''\<rparr>]))"
  by (simp add: handler_defs)

text \<open>
  Claim C8, amended. For a frame that is not valid JSON the handler sends one \<^verbatim>\<open>ERROR\<close>,
  makes no other call on the socket and leaves the storage as it was. For every frame whose
  handling throws, the handler sends one \<^verbatim>\<open>ERROR\<close>, as its only call on the socket or,
  for a \<^verbatim>\<open>PING\<close>, after the \<^verbatim>\<open>PONG\<close>; it does not close the connection; the brief of every
  session is what it was; and the storage is what it was, or what \<^verbatim>\<open>addApproval\<close> made of
  it with the one approval of this message.
\<close>

theorem error_reply_keeps_brief:
  "on_message sessionId now NotJson st = (st, [Send (ERROR SyntaxError)]) \<and>
   (fst (try_block sessionId now data st) = Thrown e \<longrightarrow>
      (snd (on_message sessionId now data st) = [Send (ERROR e)] \<or>
       (\<exists>ts. snd (on_message sessionId now data st) = [Send (PONG ts), Send (ERROR e)])) \<and>
      (fst (on_message sessionId now data st) = st \<or>
       (\<exists>a. fst (on_message sessionId now data st) = snd (addApproval sessionId a st))) \<and>
      (\<forall>k. map_option brief (sessions (fst (on_message sessionId now data st)) k) =
            map_option brief (sessions st k)))"
proof (intro conjI impI)
  show "on_message sessionId now NotJson st = (st, [Send (ERROR SyntaxError)])"
    by (simp add: on_message_def try_block_def)
next
  assume thrown: "fst (try_block sessionId now data st) = Thrown e"
  then obtain st' calls where tb: "try_block sessionId now data st = (Thrown e, st', calls)"
    by (cases "try_block sessionId now data st") simp
  then have om: "on_message sessionId now data st = (st', calls @ [Send (ERROR e)])"
    by (simp add: on_message_def)
  from try_block_Thrown [OF tb]
  have calls: "calls = [] \<or> (\<exists>ts. calls = [Send (PONG ts)])"
    and st': "st' = st \<or> (\<exists>a. st' = snd (addApproval sessionId a st))"
    by blast+
  from calls om
  show "snd (on_message sessionId now data st) = [Send (ERROR e)] \<or>
        (\<exists>ts. snd (on_message sessionId now data st) = [Send (PONG ts), Send (ERROR e)])"
    by auto
  from st' om
  show "fst (on_message sessionId now data st) = st \<or>
        (\<exists>a. fst (on_message sessionId now data st) = snd (addApproval sessionId a st))"
    by simp
  from st' om
  show "\<forall>k. map_option brief (sessions (fst (on_message sessionId now data st)) k) =
            map_option brief (sessions st k)"
    by (auto simp: addApproval_keeps_briefs)
qed

theorem error_reply_keeps_brief_witness:
  "(case on_message ''abc123'' 9
           (Json (JObj [(''type'', JStr ''AGENT_NOTE''), (''message'', JNum ''42'')]))
           (snd (createSession ''abc123'' 0 new_storage)) of
      (st', calls) \<Rightarrow>
        calls = [Send (ERROR TypeError)] \<and>
        map_option brief (sessions st' ''abc123'') =
          map_option brief (sessions (snd (createSession ''abc123'' 0 new_storage)) ''abc123''))"
proof -
  let ?data = "Json (JObj [(''type'', JStr ''AGENT_NOTE''), (''message'', JNum ''42'')])"
  let ?st = "snd (createSession ''abc123'' 0 new_storage)"
  have thrown: "fst (try_block ''abc123'' 9 ?data ?st) = Thrown TypeError"
    by (simp add: try_block_def on_AGENT_NOTE_def field_def Let_def)
  have "\<forall>ts. snd (on_message ''abc123'' 9 ?data ?st) \<noteq> [Send (PONG ts), Send (ERROR TypeError)]"
    by (simp add: on_message_def try_block_def on_AGENT_NOTE_def field_def Let_def)
  with error_reply_keeps_brief [of "''abc123''" 9 ?st ?data TypeError] thrown show ?thesis
    by (auto split: prod.splits)
qed

section \<open>The approvals log\<close>

lemma typed_message_Returned:
  assumes "field m ''type'' = JStr ''UI_RESPONSE'' \<and>
             (\<exists>p. field m ''promptId'' = JStr p) \<and> (\<exists>x. field m ''selectedOptionId'' = JStr x) \<or>
           field m ''type'' = JStr ''TODO_CONFIRM'' \<and> (\<exists>b. field m ''ok'' = JBool b) \<or>
           field m ''type'' = JStr ''AGENT_NOTE'' \<and> (\<exists>x. field m ''message'' = JStr x) \<or>
           field m ''type'' = JStr ''PING'' \<and> (\<exists>n. field m ''ts'' = JNum n)"
  shows "fst (try_block sid now (Json m) st) = Returned"
  using assms
  by (auto simp: try_block_UI_RESPONSE try_block_TODO_CONFIRM try_block_AGENT_NOTE
      try_block_PING on_UI_RESPONSE_def on_TODO_CONFIRM_def on_AGENT_NOTE_def on_PING_def
      Let_def split: option.splits)

text \<open>
  Claim C7, as stated, fails: \<^verbatim>\<open>PING\<close> is not the only message that is handled without
  error and appends no approval. An \<^verbatim>\<open>AGENT_NOTE\<close> whose message is the empty string is
  handled without error, the handler sends nothing, and the storage is what it was.
\<close>

theorem empty_agent_note_counterexample:
  "fst (try_block ''abc123'' 5
          (Json (JObj [(''type'', JStr ''AGENT_NOTE''), (''message'', JStr [])]))
          (snd (createSession ''abc123'' 0 new_storage))) = Returned \<and>
   on_message ''abc123'' 5
     (Json (JObj [(''type'', JStr ''AGENT_NOTE''), (''message'', JStr [])]))
     (snd (createSession ''abc123'' 0 new_storage)) =
   (snd (createSession ''abc123'' 0 new_storage), [])"
  by (simp add: on_message_def try_block_def on_AGENT_NOTE_def field_def)

text \<open>
  Claim C7, amended. On a session that exists, a message that is handled without error
  appends exactly one approval to the log of the session when it is a \<^verbatim>\<open>UI_RESPONSE\<close>, a
  \<^verbatim>\<open>TODO_CONFIRM\<close>, or an \<^verbatim>\<open>AGENT_NOTE\<close> whose message is truthy (for a string: not
  empty), and leaves the log as it was in every other case: a \<^verbatim>\<open>PING\<close>, an
  \<^verbatim>\<open>AGENT_NOTE\<close> whose message is empty or missing, a message of any other type. A
  \<^verbatim>\<open>UI_RESPONSE\<close> with two strings, a \<^verbatim>\<open>TODO_CONFIRM\<close> with a boolean, an \<^verbatim>\<open>AGENT_NOTE\<close>
  with a string and a \<^verbatim>\<open>PING\<close> with a number are handled without error.
\<close>

theorem approval_appended_by_type:
  assumes "sessions st sessionId = Some s"
  shows "(fst (try_block sessionId now (Json message) st) = Returned \<longrightarrow>
          (\<exists>s'. sessions (fst (on_message sessionId now (Json message) st)) sessionId = Some s' \<and>
             (if field message ''type'' = JStr ''UI_RESPONSE'' \<or>
                 field message ''type'' = JStr ''TODO_CONFIRM'' \<or>
                 field message ''type'' = JStr ''AGENT_NOTE'' \<and> truthy (field message ''message'')
              then \<exists>a. approvals s' = approvals s @ [a]
              else approvals s' = approvals s))) \<and>
         (field message ''type'' = JStr ''UI_RESPONSE'' \<and>
            (\<exists>p. field message ''promptId'' = JStr p) \<and>
            (\<exists>x. field message ''selectedOptionId'' = JStr x) \<or>
          field message ''type'' = JStr ''TODO_CONFIRM'' \<and> (\<exists>b. field message ''ok'' = JBool b) \<or>
          field message ''type'' = JStr ''AGENT_NOTE'' \<and> (\<exists>x. field message ''message'' = JStr x) \<or>
          field message ''type'' = JStr ''PING'' \<and> (\<exists>n. field message ''ts'' = JNum n) \<longrightarrow>
          fst (try_block sessionId now (Json message) st) = Returned)"
proof (intro conjI impI)
  let ?ty = "field message ''type''"
  assume ret: "fst (try_block sessionId now (Json message) st) = Returned"
  then obtain st' calls where
    tb: "try_block sessionId now (Json message) st = (Returned, st', calls)"
    by (cases "try_block sessionId now (Json message) st") simp
  then have om: "fst (on_message sessionId now (Json message) st) = st'"
    by (simp add: on_message_def)
  from tb have nn: "message \<noteq> JNull" "message \<noteq> JUndefined"
    by (auto simp: try_block_Json)
  consider (ui) "?ty = JStr ''UI_RESPONSE''"
    | (todo) "?ty = JStr ''TODO_CONFIRM''"
    | (agent_note) "?ty = JStr ''AGENT_NOTE''"
    | (ping) "?ty = JStr ''PING''"
    | (other) "?ty \<noteq> JStr ''UI_RESPONSE''" "?ty \<noteq> JStr ''TODO_CONFIRM''"
        "?ty \<noteq> JStr ''AGENT_NOTE''" "?ty \<noteq> JStr ''PING''"
    by blast
  then show "\<exists>s'. sessions (fst (on_message sessionId now (Json message) st)) sessionId = Some s' \<and>
     (if ?ty = JStr ''UI_RESPONSE'' \<or> ?ty = JStr ''TODO_CONFIRM'' \<or>
         ?ty = JStr ''AGENT_NOTE'' \<and> truthy (field message ''message'')
      then \<exists>a. approvals s' = approvals s @ [a]
      else approvals s' = approvals s)"
  proof cases
    case ui
    with ret have "fst (on_UI_RESPONSE sessionId now (field message ''promptId'')
                      (field message ''selectedOptionId'') st) = Returned"
      by (simp add: try_block_UI_RESPONSE)
    then obtain p t where "field message ''promptId'' = JStr p"
      "toString (field message ''selectedOptionId'') = Inr t"
      using on_UI_RESPONSE_Returned by blast
    with assms ui show ?thesis
      by (simp add: on_message_UI_RESPONSE_bound)
  next
    case todo
    with tb have "on_TODO_CONFIRM sessionId now (field message ''ok'') st = (Returned, st', calls)"
      by (simp add: try_block_TODO_CONFIRM)
    then obtain a where "st' = snd (addApproval sessionId a st)"
      by (blast dest: on_TODO_CONFIRM_Returned)
    with assms om todo show ?thesis
      by (simp add: addApproval_bound)
  next
    case agent_note
    with tb have
      "on_AGENT_NOTE sessionId now (field message ''message'') st = (Returned, st', calls)"
      by (simp add: try_block_AGENT_NOTE)
    then have "if truthy (field message ''message'')
        then \<exists>a. st' = snd (addApproval sessionId a st) else st' = st"
      by (rule on_AGENT_NOTE_Returned)
    with assms om agent_note show ?thesis
      by (auto simp: addApproval_bound split: if_splits)
  next
    case ping
    with tb have "on_PING (field message ''ts'') st = (Returned, st', calls)"
      by (simp add: try_block_PING)
    then have "st' = st"
      by (blast dest: on_PING_effect)
    with assms om ping show ?thesis
      by simp
  next
    case other
    with tb nn have "st' = st"
      by (simp add: try_block_Json)
    with assms om other show ?thesis
      by simp
  qed
next
  assume "field message ''type'' = JStr ''UI_RESPONSE'' \<and>
            (\<exists>p. field message ''promptId'' = JStr p) \<and>
            (\<exists>x. field message ''selectedOptionId'' = JStr x) \<or>
          field message ''type'' = JStr ''TODO_CONFIRM'' \<and> (\<exists>b. field message ''ok'' = JBool b) \<or>
          field message ''type'' = JStr ''AGENT_NOTE'' \<and> (\<exists>x. field message ''message'' = JStr x) \<or>
          field message ''type'' = JStr ''PING'' \<and> (\<exists>n. field message ''ts'' = JNum n)"
  then show "fst (try_block sessionId now (Json message) st) = Returned"
    by (rule typed_message_Returned)
qed

theorem approval_appended_by_type_witness:
  "(case sessions
          (fst (on_message ''abc123'' 8
                  (Json (JObj [(''type'', JStr ''AGENT_NOTE''),
                               (''message'', JStr ''prefers matte'')]))
                  (snd (createSession ''abc123'' 0 new_storage))))
          ''abc123'' of
      None \<Rightarrow> False
    | Some s' \<Rightarrow> length (approvals s') = 1) \<and>
   (case sessions
          (fst (on_message ''abc123'' 8
                  (Json (JObj [(''type'', JStr ''PING''), (''ts'', JNum ''12345'')]))
                  (snd (createSession ''abc123'' 0 new_storage))))
          ''abc123'' of
      None \<Rightarrow> False
    | Some s' \<Rightarrow> approvals s' = [])"
proof -
  let ?m1 = "JObj [(''type'', JStr ''AGENT_NOTE''), (''message'', JStr ''prefers matte'')]"
  let ?m2 = "JObj [(''type'', JStr ''PING''), (''ts'', JNum ''12345'')]"
  let ?st = "snd (createSession ''abc123'' 0 new_storage)"
  let ?s = "fst (createSession ''abc123'' 0 new_storage)"
  have b: "sessions ?st ''abc123'' = Some ?s"
    by (rule createSession_bound)
  have m1: "field ?m1 ''type'' = JStr ''AGENT_NOTE''"
      "field ?m1 ''message'' = JStr ''prefers matte''"
    by (simp_all add: field_def)
  have m2: "field ?m2 ''type'' = JStr ''PING''" "field ?m2 ''ts'' = JNum ''12345''"
    by (simp_all add: field_def)
  note w1 = approval_appended_by_type [OF b, of 8 ?m1]
  note w2 = approval_appended_by_type [OF b, of 8 ?m2]
  from w1 m1 have r1: "fst (try_block ''abc123'' 8 (Json ?m1) ?st) = Returned"
    by blast
  from w2 m2 have r2: "fst (try_block ''abc123'' 8 (Json ?m2) ?st) = Returned"
    by blast
  from w1 r1 m1 have
    "case sessions (fst (on_message ''abc123'' 8 (Json ?m1) ?st)) ''abc123'' of
       None \<Rightarrow> False | Some s' \<Rightarrow> length (approvals s') = 1"
    by (auto simp: createSession_approvals)
  moreover from w2 r2 m2 have
    "case sessions (fst (on_message ''abc123'' 8 (Json ?m2) ?st)) ''abc123'' of
       None \<Rightarrow> False | Some s' \<Rightarrow> approvals s' = []"
    by (auto simp: createSession_approvals)
  ultimately show ?thesis
    by simp
qed

end
